theory Spec2Isabelle
  imports Main
begin

section \<open>Exceptions\<close>

text \<open>
  Every way a call of the package can raise.  \<open>Exception\<close> is the one exception the
  package raises itself (\<^verbatim>\<open>raise Exception(await stderr.read())\<close> in \<open>run\<close>); the
  others are raised by the collaborators the package calls and propagate unchanged,
  because the package contains no \<^verbatim>\<open>try\<close> statement.
\<close>

datatype exn =
    Exception string      \<comment> \<open>raised by \<open>run\<close>, carrying the text read from stderr\<close>
  | ImportFailure string  \<comment> \<open>a plugin loader (\<open>import_module\<close>, \<open>entry_point.load\<close>) raised\<close>
  | NodesFailure string   \<comment> \<open>\<open>plugin.nodes()\<close> raised\<close>
  | EncodeFailure string  \<comment> \<open>\<open>pygada_runtime.write_json\<close> raised\<close>
  | LaunchFailure string  \<comment> \<open>\<open>pygada_runtime.run\<close> raised\<close>
  | DecodeFailure string  \<comment> \<open>\<open>pygada_runtime.read_json\<close> raised\<close>

section \<open>Plugin discovery: \<open>gadalang/nodes/__init__.py\<close>\<close>

text \<open>
  A loaded plugin is an object with a \<open>nodes()\<close> method; all the package ever does with
  it is to call that method, so a plugin is what the call gives: the node names, or the
  exception raised.
\<close>

datatype plugin = Plugin (plugin_nodes: "exn + string list")

text \<open>
  What is installed on the machine, as the two discovery sources see it:
  \<open>modules\<close> are the sub-modules \<open>pkgutil.iter_modules\<close> finds under the package
  (bare name, and what importing it gives), \<open>entry_points\<close> the entry points of group
  \<open>gadalang.nodes\<close> (entry name, and what its \<open>load\<close> gives).
\<close>

record installation =
  modules :: "(string \<times> (exn + plugin)) list"
  entry_points :: "(string \<times> (exn + plugin)) list"

definition ns_pkg_name :: string where
  "ns_pkg_name = ''gadalang.nodes''"

text \<open>
  \<open>iter_namespace\<close>: first the sub-modules, named with the prefix
  \<open>ns_pkg.__name__ + "."\<close>, then the entry points, named
  \<open>"gadaland.nodes.{}".format(name)\<close> (spelled as in the source).
\<close>

definition iter_namespace :: "installation \<Rightarrow> (string \<times> (exn + plugin)) list" where
  "iter_namespace inst =
     map (\<lambda>(n, loader). (ns_pkg_name @ ''.'' @ n, loader)) (modules inst) @
     map (\<lambda>(n, loader). (''gadaland.nodes.'' @ n, loader)) (entry_points inst)"

text \<open>\<open>str.rfind\<close> for a one-character needle: the highest index, or \<open>-1\<close>.\<close>

definition rfind :: "string \<Rightarrow> char \<Rightarrow> int" where
  "rfind s c =
     (case filter (\<lambda>i. s ! i = c) (rev [0..<length s]) of
        [] \<Rightarrow> - 1
      | i # _ \<Rightarrow> int i)"

text \<open>\<open>normalize(name) = name[name.rfind(".") + 1 :]\<close>\<close>

definition normalize :: "string \<Rightarrow> string" where
  "normalize name = drop (nat (rfind name (CHR ''.'') + 1)) name"

text \<open>
  The list comprehension of \<open>load_plugins\<close>: each loader is called in turn, and the
  first one that raises ends the comprehension.
\<close>

fun load_each :: "(string \<times> (exn + plugin)) list \<Rightarrow> exn + (string \<times> plugin) list" where
  "load_each [] = Inr []"
| "load_each ((n, loader) # rest) =
     (case loader of
        Inl e \<Rightarrow> Inl e
      | Inr p \<Rightarrow>
          (case load_each rest of
             Inl e \<Rightarrow> Inl e
           | Inr ps \<Rightarrow> Inr ((normalize n, p) # ps)))"

definition load_plugins :: "installation \<Rightarrow> exn + (string \<times> plugin) list" where
  "load_plugins inst = load_each (iter_namespace inst)"

text \<open>The inner loop of \<open>load\<close>: \<open>for _ in plugin.nodes(): nodes[_] = name\<close>.\<close>

fun register :: "string \<Rightarrow> string list \<Rightarrow> (string \<rightharpoonup> string) \<Rightarrow> (string \<rightharpoonup> string)" where
  "register name [] nodes = nodes"
| "register name (n # ns) nodes = register name ns (nodes(n \<mapsto> name))"

text \<open>The outer loop of \<open>load\<close>, over the loaded plugins, threading the dictionary.\<close>

fun load_loop :: "(string \<times> plugin) list \<Rightarrow> (string \<rightharpoonup> string) \<Rightarrow> exn + (string \<rightharpoonup> string)" where
  "load_loop [] nodes = Inr nodes"
| "load_loop ((name, plugin) # rest) nodes =
     (case plugin_nodes plugin of
        Inl e \<Rightarrow> Inl e
      | Inr ns \<Rightarrow> load_loop rest (register name ns nodes))"

definition load :: "installation \<Rightarrow> exn + (string \<rightharpoonup> string)" where
  "load inst =
     (case load_plugins inst of
        Inl e \<Rightarrow> Inl e
      | Inr ps \<Rightarrow> load_loop ps Map.empty)"

section \<open>Name resolution: \<open>sanitize_node_name\<close>\<close>

definition sanitize_node_name :: "installation \<Rightarrow> string \<Rightarrow> exn + string" where
  "sanitize_node_name inst node =
     (if CHR ''.'' \<in> set node then Inr node
      else
        (case load inst of
           Inl e \<Rightarrow> Inl e
         | Inr known \<Rightarrow>
             (case known node of
                None \<Rightarrow> Inr node
              | Some owner \<Rightarrow> Inr (''gadalang_'' @ owner @ ''.'' @ node))))"

subsection \<open>Counting discovery runs\<close>

text \<open>
  The same three functions with the one effect a caller can observe made explicit: the
  number of times \<open>load_plugins\<close> has scanned the installation since the process
  started.  The package keeps no other state: \<open>nodes\<close> in \<open>load\<close> is a fresh local
  dictionary, and no module-level variable holds a registry.
\<close>

definition load_plugins_counted ::
  "installation \<Rightarrow> nat \<Rightarrow> (exn + (string \<times> plugin) list) \<times> nat" where
  "load_plugins_counted inst k = (load_plugins inst, Suc k)"

definition load_counted :: "installation \<Rightarrow> nat \<Rightarrow> (exn + (string \<rightharpoonup> string)) \<times> nat" where
  "load_counted inst k =
     (case load_plugins_counted inst k of
        (Inl e, k') \<Rightarrow> (Inl e, k')
      | (Inr ps, k') \<Rightarrow> (load_loop ps Map.empty, k'))"

definition sanitize_node_name_counted ::
  "installation \<Rightarrow> string \<Rightarrow> nat \<Rightarrow> (exn + string) \<times> nat" where
  "sanitize_node_name_counted inst node k =
     (if CHR ''.'' \<in> set node then (Inr node, k)
      else
        (case load_counted inst k of
           (Inl e, k') \<Rightarrow> (Inl e, k')
         | (Inr known, k') \<Rightarrow>
             (case known node of
                None \<Rightarrow> (Inr node, k')
              | Some owner \<Rightarrow> (Inr (''gadalang_'' @ owner @ ''.'' @ node), k'))))"

section \<open>Execution: \<open>run\<close>\<close>

text \<open>
  The values exchanged with a node.  \<open>run\<close> never looks inside one: it hands the input
  to \<open>write_json\<close> and returns what \<open>read_json\<close> gives.
\<close>

datatype json =
    JNull
  | JBool bool
  | JInt int
  | JStr string
  | JList "json list"
  | JDict "(string \<times> json) list"

text \<open>
  What \<open>pygada_runtime.run\<close> followed by \<open>proc.wait()\<close> comes to for a program name and
  the text on its standard input: the launch raises, the wait never returns, or the
  process exits with a return code, having written \<open>out\<close> to its standard output and
  \<open>err\<close> to its standard error (the texts a \<open>read()\<close> of each stream gives after
  \<open>eof()\<close>).
\<close>

datatype child =
    NotLaunched exn
  | Hangs
  | Exited int string string

text \<open>
  The library \<open>pygada_runtime\<close> is not part of the package; its three operations are
  parameters of the model.
\<close>

record runtime =
  write_json :: "json \<Rightarrow> exn + string"
  spawn :: "string \<Rightarrow> string \<Rightarrow> child"
  read_json :: "string \<Rightarrow> exn + json"

text \<open>
  \<open>run\<close>, in the order of the source: default the input, write it, resolve the name
  (the argument of \<open>pygada_runtime.run\<close> is evaluated before the call), launch and
  wait, then branch on the return code.  \<open>None\<close> is a call that never returns.
\<close>

definition run :: "runtime \<Rightarrow> installation \<Rightarrow> string \<Rightarrow> json option \<Rightarrow> (exn + json) option" where
  "run rt inst node data =
     (let data = (case data of None \<Rightarrow> JDict [] | Some d \<Rightarrow> d) in
      case write_json rt data of
        Inl e \<Rightarrow> Some (Inl e)
      | Inr text \<Rightarrow>
          (case sanitize_node_name inst node of
             Inl e \<Rightarrow> Some (Inl e)
           | Inr name \<Rightarrow>
               (case spawn rt name text of
                  NotLaunched e \<Rightarrow> Some (Inl e)
                | Hangs \<Rightarrow> None
                | Exited returncode out err \<Rightarrow>
                    if returncode \<noteq> 0 then Some (Inl (Exception err))
                    else Some (read_json rt out))))"

section \<open>Example installations and runtimes\<close>

text \<open>The installation of the docstrings: one entry point \<open>lang\<close> with two nodes.\<close>

definition lang_installation :: installation where
  "lang_installation =
     \<lparr>modules = [],
      entry_points = [(''lang'', Inr (Plugin (Inr [''json'', ''yaml''])))]\<rparr>"

text \<open>An installation with an entry point whose loading raises.\<close>

definition broken_installation :: installation where
  "broken_installation =
     \<lparr>modules = [],
      entry_points = [(''lang'', Inl (ImportFailure ''No module named gadalang_lang''))]\<rparr>"

text \<open>Two plugins declaring the same node \<open>x\<close>: a sub-module \<open>a\<close>, then an entry point \<open>b\<close>.\<close>

definition clash_installation :: installation where
  "clash_installation =
     \<lparr>modules = [(''a'', Inr (Plugin (Inr [''x''])))],
      entry_points = [(''b'', Inr (Plugin (Inr [''x'', ''y''])))]\<rparr>"

text \<open>
  A runtime whose only program writes \<open>boom\<close> to standard error and exits with
  status 1, and one whose only program exits with status 0 after writing text that
  \<open>read_json\<close> rejects.
\<close>

definition boom_runtime :: runtime where
  "boom_runtime =
     \<lparr>write_json = (\<lambda>v. Inr ''{}''),
      spawn = (\<lambda>name text. Exited 1 ''partial output'' ''boom''),
      read_json = (\<lambda>s. if s = ''{}'' then Inr (JDict []) else Inl (DecodeFailure s))\<rparr>"

definition garbage_runtime :: runtime where
  "garbage_runtime =
     \<lparr>write_json = (\<lambda>v. Inr ''{}''),
      spawn = (\<lambda>name text. Exited 0 ''not json'' []),
      read_json = (\<lambda>s. if s = ''{}'' then Inr (JDict []) else Inl (DecodeFailure s))\<rparr>"

text \<open>A runtime whose only program copies its standard input to its standard output.\<close>

definition echo_runtime :: runtime where
  "echo_runtime =
     \<lparr>write_json = (\<lambda>v. Inr ''{}''),
      spawn = (\<lambda>name text. Exited 0 text []),
      read_json = (\<lambda>s. if s = ''{}'' then Inr (JDict []) else Inl (DecodeFailure s))\<rparr>"

section \<open>Evaluating the examples\<close>

lemma normalize_lang: "normalize ''gadaland.nodes.lang'' = ''lang''"
  by (simp add: normalize_def rfind_def upt_rec)

lemma normalize_a: "normalize ''gadalang.nodes.a'' = ''a''"
  by (simp add: normalize_def rfind_def upt_rec)

lemma normalize_b: "normalize ''gadaland.nodes.b'' = ''b''"
  by (simp add: normalize_def rfind_def upt_rec)

lemma load_plugins_lang:
  "load_plugins lang_installation = Inr [(''lang'', Plugin (Inr [''json'', ''yaml'']))]"
  by (simp add: load_plugins_def iter_namespace_def lang_installation_def normalize_lang)

lemma load_lang:
  "load lang_installation = Inr [''json'' \<mapsto> ''lang'', ''yaml'' \<mapsto> ''lang'']"
  by (simp add: load_def load_plugins_lang)

lemma load_broken:
  "load broken_installation = Inl (ImportFailure ''No module named gadalang_lang'')"
  by (simp add: load_def load_plugins_def iter_namespace_def broken_installation_def)

lemma load_plugins_clash:
  "load_plugins clash_installation =
     Inr ([(''a'', Plugin (Inr [''x'']))] @ (''b'', Plugin (Inr [''x'', ''y''])) # [])"
  by (simp add: load_plugins_def iter_namespace_def clash_installation_def ns_pkg_name_def
      normalize_a normalize_b)

lemma sanitize_lang_json:
  "sanitize_node_name lang_installation ''json'' = Inr ''gadalang_lang.json''"
  by (simp add: sanitize_node_name_def load_lang)

section \<open>The counted functions agree with the plain ones\<close>

lemma load_counted_eq: "load_counted inst k = (load inst, Suc k)"
  by (simp add: load_counted_def load_plugins_counted_def load_def split: sum.splits)

lemma sanitize_node_name_counted_eq:
  "sanitize_node_name_counted inst node k =
     (sanitize_node_name inst node, if CHR ''.'' \<in> set node then k else Suc k)"
  by (simp add: sanitize_node_name_counted_def sanitize_node_name_def load_counted_eq
      split: sum.splits option.splits)

section \<open>The registry loops\<close>

lemma register_apply:
  "register name ns nodes x = (if x \<in> set ns then Some name else nodes x)"
  by (induction ns arbitrary: nodes) auto

lemma load_loop_append:
  "load_loop (ps @ qs) nodes =
     (case load_loop ps nodes of Inl e \<Rightarrow> Inl e | Inr nodes' \<Rightarrow> load_loop qs nodes')"
  by (induction ps nodes rule: load_loop.induct) (auto split: sum.splits)

lemma load_loop_returns:
  "\<forall>(g, p) \<in> set ps. \<exists>ns. plugin_nodes p = Inr ns \<Longrightarrow>
   \<exists>nodes'. load_loop ps nodes = Inr nodes'"
  by (induction ps nodes rule: load_loop.induct) auto

lemma load_loop_keeps:
  "\<forall>(g, p) \<in> set ps. \<exists>ns. plugin_nodes p = Inr ns \<and> x \<notin> set ns \<Longrightarrow>
   \<exists>nodes'. load_loop ps nodes = Inr nodes' \<and> nodes' x = nodes x"
  by (induction ps nodes rule: load_loop.induct) (auto simp: register_apply)

section \<open>Resolution\<close>

text \<open>
  C1.  A node name without a \<open>.\<close> that the registry built by \<open>load\<close> maps to the
  owner group \<open>g\<close> resolves to \<open>gadalang_\<close> followed by \<open>g\<close>, a \<open>.\<close> and the name.
\<close>

theorem sanitize_node_name_registered:
  assumes "CHR ''.'' \<notin> set n"
    and "load inst = Inr known"
    and "known n = Some g"
  shows "sanitize_node_name inst n = Inr (''gadalang_'' @ g @ ''.'' @ n)"
  using assms by (simp add: sanitize_node_name_def)

theorem sanitize_node_name_registered_witness:
  "CHR ''.'' \<notin> set ''json'' \<and>
   load lang_installation = Inr [''json'' \<mapsto> ''lang'', ''yaml'' \<mapsto> ''lang''] \<and>
   [''json'' \<mapsto> ''lang'', ''yaml'' \<mapsto> ''lang''] ''json'' = Some ''lang'' \<and>
   sanitize_node_name lang_installation ''json'' = Inr ''gadalang_lang.json''"
proof -
  have sep: "CHR ''.'' \<notin> set ''json''" by simp
  have owner: "[''json'' \<mapsto> ''lang'', ''yaml'' \<mapsto> ''lang''] ''json'' = Some ''lang''" by simp
  show ?thesis
    using sep owner load_lang sanitize_node_name_registered [OF sep load_lang owner] by simp
qed

text \<open>
  C7.  A string that contains a \<open>.\<close> resolves to itself on every installation, also
  one whose discovery would raise, and the call runs no discovery: the count of
  \<open>load_plugins\<close> runs is unchanged.
\<close>

theorem sanitize_node_name_qualified:
  assumes "CHR ''.'' \<in> set s"
  shows "sanitize_node_name inst s = Inr s \<and>
         sanitize_node_name_counted inst s k = (Inr s, k)"
  using assms by (simp add: sanitize_node_name_counted_eq) (simp add: sanitize_node_name_def)

theorem sanitize_node_name_qualified_witness:
  "CHR ''.'' \<in> set ''somepackage.somenode'' \<and>
   sanitize_node_name broken_installation ''somepackage.somenode'' = Inr ''somepackage.somenode'' \<and>
   sanitize_node_name_counted broken_installation ''somepackage.somenode'' 0 =
     (Inr ''somepackage.somenode'', 0)"
proof -
  have sep: "CHR ''.'' \<in> set ''somepackage.somenode''" by simp
  show ?thesis
    using sep sanitize_node_name_qualified [OF sep, of broken_installation 0] by simp
qed

text \<open>
  C8.  A node name without a \<open>.\<close> that the registry built by \<open>load\<close> does not contain
  resolves to itself.
\<close>

theorem sanitize_node_name_unknown:
  assumes "CHR ''.'' \<notin> set name"
    and "load inst = Inr known"
    and "known name = None"
  shows "sanitize_node_name inst name = Inr name"
  using assms by (simp add: sanitize_node_name_def)

theorem sanitize_node_name_unknown_witness:
  "CHR ''.'' \<notin> set ''invalid'' \<and>
   load lang_installation = Inr [''json'' \<mapsto> ''lang'', ''yaml'' \<mapsto> ''lang''] \<and>
   [''json'' \<mapsto> ''lang'', ''yaml'' \<mapsto> ''lang''] ''invalid'' = None \<and>
   sanitize_node_name lang_installation ''invalid'' = Inr ''invalid''"
proof -
  have sep: "CHR ''.'' \<notin> set ''invalid''" by simp
  have absent: "[''json'' \<mapsto> ''lang'', ''yaml'' \<mapsto> ''lang''] ''invalid'' = None" by simp
  show ?thesis
    using sep absent load_lang sanitize_node_name_unknown [OF sep load_lang absent] by simp
qed

text \<open>
  C10.  Resolution is idempotent: when the registry can be built, resolving any string
  returns a result, and resolving that result returns it again.
\<close>

theorem sanitize_node_name_idempotent:
  assumes "load inst = Inr known"
  shows "\<exists>r. sanitize_node_name inst s = Inr r \<and> sanitize_node_name inst r = Inr r"
proof (cases "CHR ''.'' \<in> set s")
  case True
  then show ?thesis by (simp add: sanitize_node_name_def)
next
  case unqualified: False
  show ?thesis
  proof (cases "known s")
    case None
    with unqualified assms show ?thesis by (simp add: sanitize_node_name_def)
  next
    case (Some owner)
    let ?r = "''gadalang_'' @ owner @ ''.'' @ s"
    have "sanitize_node_name inst s = Inr ?r"
      using unqualified assms Some by (simp add: sanitize_node_name_def)
    moreover have "sanitize_node_name inst ?r = Inr ?r"
      by (simp add: sanitize_node_name_def)
    ultimately show ?thesis by blast
  qed
qed

theorem sanitize_node_name_idempotent_witness:
  "load lang_installation = Inr [''json'' \<mapsto> ''lang'', ''yaml'' \<mapsto> ''lang''] \<and>
   sanitize_node_name lang_installation ''json'' = Inr ''gadalang_lang.json'' \<and>
   sanitize_node_name lang_installation ''gadalang_lang.json'' = Inr ''gadalang_lang.json''"
proof -
  obtain r where first: "sanitize_node_name lang_installation ''json'' = Inr r"
    and again: "sanitize_node_name lang_installation r = Inr r"
    using sanitize_node_name_idempotent [OF load_lang, of "''json''"] by blast
  have "r = ''gadalang_lang.json''"
    using first by (simp add: sanitize_lang_json)
  with first again load_lang show ?thesis by simp
qed

text \<open>
  C4, as stated, fails: resolving an unqualified name builds the registry, and an entry
  point whose loading raises makes \<open>sanitize_node_name\<close> raise.
\<close>

theorem sanitize_node_name_raises_counterexample:
  "sanitize_node_name broken_installation ''json'' =
     Inl (ImportFailure ''No module named gadalang_lang'')"
  by (simp add: sanitize_node_name_def load_broken)

text \<open>
  C4, amended.  \<open>sanitize_node_name\<close> raises exactly when the name has no \<open>.\<close> and
  \<open>load\<close> raises, and then with the exception of \<open>load\<close>.  So it returns for every
  string that contains a \<open>.\<close>, and for every string at all once the registry can be
  built: a name no plugin declares is not an error of resolution.
\<close>

theorem sanitize_node_name_raises_iff:
  "(sanitize_node_name inst node = Inl e) = (CHR ''.'' \<notin> set node \<and> load inst = Inl e)"
  by (simp add: sanitize_node_name_def split: sum.splits option.splits)

theorem sanitize_node_name_raises_iff_witness:
  "sanitize_node_name lang_installation ''invalid'' \<noteq> Inl (ImportFailure ''No module named invalid'') \<and>
   sanitize_node_name broken_installation ''testnodes.hello'' \<noteq>
     Inl (ImportFailure ''No module named gadalang_lang'')"
  using sanitize_node_name_raises_iff
          [of lang_installation "''invalid''" "ImportFailure ''No module named invalid''"]
        sanitize_node_name_raises_iff
          [of broken_installation "''testnodes.hello''"
              "ImportFailure ''No module named gadalang_lang''"]
        load_lang
  by simp

section \<open>The registry\<close>

text \<open>
  C5, as stated, fails: nothing caches the registry.  Resolving \<open>json\<close> and then
  \<open>yaml\<close> in a fresh process runs plugin discovery twice.
\<close>

theorem registry_built_once_counterexample:
  "snd (sanitize_node_name_counted lang_installation ''yaml''
          (snd (sanitize_node_name_counted lang_installation ''json'' 0))) = 2"
  by (simp add: sanitize_node_name_counted_eq)

text \<open>
  C5, amended.  Each resolution of a name without a \<open>.\<close> calls \<open>load\<close>, which runs plugin
  discovery exactly once more, whether or not it raises; a resolution of a name with a
  \<open>.\<close> runs none.  The result is that of the plain function, which looks the name up in
  the mapping this very call built.
\<close>

theorem sanitize_node_name_discovery_runs:
  "snd (sanitize_node_name_counted inst node k) = (if CHR ''.'' \<in> set node then k else Suc k) \<and>
   fst (sanitize_node_name_counted inst node k) = sanitize_node_name inst node"
  by (simp add: sanitize_node_name_counted_eq)

theorem sanitize_node_name_discovery_runs_witness:
  "snd (sanitize_node_name_counted lang_installation ''json'' 0) = 1 \<and>
   snd (sanitize_node_name_counted lang_installation ''json'' 1) = 2 \<and>
   snd (sanitize_node_name_counted lang_installation ''testnodes.hello'' 2) = 2"
  using sanitize_node_name_discovery_runs [of lang_installation "''json''" 0]
        sanitize_node_name_discovery_runs [of lang_installation "''json''" 1]
        sanitize_node_name_discovery_runs [of lang_installation "''testnodes.hello''" 2]
  by simp

text \<open>
  C6.  Let the discovered plugins be \<open>before\<close>, then the plugin \<open>p\<close> of group \<open>g\<close>, then
  \<open>after\<close>, where every \<open>nodes()\<close> call returns, \<open>p\<close> declares the node \<open>x\<close> and no
  plugin of \<open>after\<close> does (plugins of \<open>before\<close> may).  Then \<open>load\<close> raises nothing and
  maps \<open>x\<close> to \<open>g\<close>, and a second \<open>load\<close> in the same process returns the same mapping
  as the first.
\<close>

theorem load_last_writer_wins:
  assumes plugins: "load_plugins inst = Inr (before @ (g, p) # after)"
    and before: "\<forall>(g', p') \<in> set before. \<exists>ns'. plugin_nodes p' = Inr ns'"
    and declares: "plugin_nodes p = Inr ns" "x \<in> set ns"
    and after: "\<forall>(g', p') \<in> set after. \<exists>ns'. plugin_nodes p' = Inr ns' \<and> x \<notin> set ns'"
  shows "\<exists>known. load inst = Inr known \<and> known x = Some g \<and>
           fst (load_counted inst k) = Inr known \<and>
           fst (load_counted inst (snd (load_counted inst k))) = Inr known"
proof -
  obtain m1 where m1: "load_loop before Map.empty = Inr m1"
    using load_loop_returns [OF before] by blast
  let ?m2 = "register g ns m1"
  have m2: "?m2 x = Some g"
    using declares by (simp add: register_apply)
  obtain m3 where m3: "load_loop after ?m2 = Inr m3" and keep: "m3 x = ?m2 x"
    using load_loop_keeps [OF after] by blast
  have "load_loop (before @ (g, p) # after) Map.empty = Inr m3"
    using m1 m3 declares by (simp add: load_loop_append)
  then have "load inst = Inr m3"
    using plugins by (simp add: load_def)
  then show ?thesis
    using keep m2 by (simp add: load_counted_eq)
qed

theorem load_last_writer_wins_witness:
  "load clash_installation = Inr [''x'' \<mapsto> ''b'', ''y'' \<mapsto> ''b''] \<and>
   fst (load_counted clash_installation (snd (load_counted clash_installation 0))) =
     Inr [''x'' \<mapsto> ''b'', ''y'' \<mapsto> ''b'']"
proof -
  have "\<exists>known. load clash_installation = Inr known \<and> known ''x'' = Some ''b'' \<and>
          fst (load_counted clash_installation 0) = Inr known \<and>
          fst (load_counted clash_installation (snd (load_counted clash_installation 0))) =
            Inr known"
    using load_last_writer_wins
            [OF load_plugins_clash, where ns = "[''x'', ''y'']" and x = "''x''" and k = 0]
    by simp
  moreover have "load clash_installation = Inr [''x'' \<mapsto> ''b'', ''y'' \<mapsto> ''b'']"
    by (simp add: load_def load_plugins_clash)
  ultimately show ?thesis by auto
qed

section \<open>Execution\<close>

text \<open>
  C2.  When the input has been written, the name resolved and the child launched, and
  the child exits with a status other than zero, \<open>run\<close> raises \<open>Exception\<close> with
  exactly the text read from the child's standard error, whatever the child wrote to
  its standard output and whatever \<open>read_json\<close> would make of it.
\<close>

theorem run_nonzero_exit:
  assumes "write_json rt (case data of None \<Rightarrow> JDict [] | Some d \<Rightarrow> d) = Inr text"
    and "sanitize_node_name inst node = Inr name"
    and "spawn rt name text = Exited returncode out err"
    and "returncode \<noteq> 0"
  shows "run rt inst node data = Some (Inl (Exception err))"
  using assms by (simp add: run_def)

theorem run_nonzero_exit_witness:
  "write_json boom_runtime (case None of None \<Rightarrow> JDict [] | Some d \<Rightarrow> d) = Inr ''{}'' \<and>
   sanitize_node_name lang_installation ''json'' = Inr ''gadalang_lang.json'' \<and>
   spawn boom_runtime ''gadalang_lang.json'' ''{}'' = Exited 1 ''partial output'' ''boom'' \<and>
   (1::int) \<noteq> 0 \<and>
   run boom_runtime lang_installation ''json'' None = Some (Inl (Exception ''boom''))"
proof -
  have written: "write_json boom_runtime (case None of None \<Rightarrow> JDict [] | Some d \<Rightarrow> d) = Inr ''{}''"
    by (simp add: boom_runtime_def)
  have exited: "spawn boom_runtime ''gadalang_lang.json'' ''{}'' = Exited 1 ''partial output'' ''boom''"
    by (simp add: boom_runtime_def)
  have failed: "(1::int) \<noteq> 0" by simp
  show ?thesis
    using written exited sanitize_lang_json
      run_nonzero_exit [OF written sanitize_lang_json exited failed]
    by simp
qed

text \<open>
  C3.  When the input has been written, the name resolved and the child launched, and
  the child exits with status zero, the outcome of \<open>run\<close> is the outcome of
  \<open>read_json\<close> on the whole text of the child's standard output: the decoded value
  when it decodes, the exception of \<open>read_json\<close> when it does not.
\<close>

theorem run_zero_exit:
  assumes "write_json rt (case data of None \<Rightarrow> JDict [] | Some d \<Rightarrow> d) = Inr text"
    and "sanitize_node_name inst node = Inr name"
    and "spawn rt name text = Exited 0 out err"
  shows "run rt inst node data = Some (read_json rt out)"
  using assms by (simp add: run_def)

theorem run_zero_exit_witness:
  "write_json garbage_runtime (case None of None \<Rightarrow> JDict [] | Some d \<Rightarrow> d) = Inr ''{}'' \<and>
   sanitize_node_name lang_installation ''json'' = Inr ''gadalang_lang.json'' \<and>
   spawn garbage_runtime ''gadalang_lang.json'' ''{}'' = Exited 0 ''not json'' [] \<and>
   run garbage_runtime lang_installation ''json'' None = Some (Inl (DecodeFailure ''not json'')) \<and>
   run echo_runtime lang_installation ''json'' None = Some (Inr (JDict []))"
proof -
  have written: "write_json garbage_runtime (case None of None \<Rightarrow> JDict [] | Some d \<Rightarrow> d) = Inr ''{}''"
    by (simp add: garbage_runtime_def)
  have exited: "spawn garbage_runtime ''gadalang_lang.json'' ''{}'' = Exited 0 ''not json'' []"
    by (simp add: garbage_runtime_def)
  have rejected: "read_json garbage_runtime ''not json'' = Inl (DecodeFailure ''not json'')"
    by (simp add: garbage_runtime_def)
  have written': "write_json echo_runtime (case None of None \<Rightarrow> JDict [] | Some d \<Rightarrow> d) = Inr ''{}''"
    by (simp add: echo_runtime_def)
  have exited': "spawn echo_runtime ''gadalang_lang.json'' ''{}'' = Exited 0 ''{}'' []"
    by (simp add: echo_runtime_def)
  have decoded: "read_json echo_runtime ''{}'' = Inr (JDict [])"
    by (simp add: echo_runtime_def)
  show ?thesis
    using written exited rejected decoded sanitize_lang_json
      run_zero_exit [OF written sanitize_lang_json exited]
      run_zero_exit [OF written' sanitize_lang_json exited']
    by simp
qed

end
